theory Spec2Isabelle
  imports Complex_Main
begin

section \<open>JavaScript values used by the classification module\<close>

text \<open>
  The module \<open>imnci-classification\<close> only compares numbers against constants and tests
  them for truthiness; it never does arithmetic on them. A JavaScript number is modelled
  with its four kinds of value. Every finite double is a real number and every constant
  of the module (2, 12, 40, 50, 60, 7, 14, 11.5, 12.5, -3, -2) is a double, so comparing
  the reals gives what comparing the doubles gives. Positive and negative zero are the
  same real, as they are for \<open><\<close>, \<open>>=\<close> and truthiness in JavaScript.
\<close>

datatype number = Num real | Infinity | NegInfinity | NaN

text \<open>Truthiness of a number: \<open>0\<close>, \<open>-0\<close> and \<open>NaN\<close> are falsy.\<close>

fun truthy :: "number \<Rightarrow> bool" where
  "truthy (Num r) = (r \<noteq> 0)"
| "truthy Infinity = True"
| "truthy NegInfinity = True"
| "truthy NaN = False"

text \<open>The operator \<open>a < b\<close>: false as soon as one side is \<open>NaN\<close>.\<close>

fun js_lt :: "number \<Rightarrow> number \<Rightarrow> bool" where
  "js_lt (Num a) (Num b) = (a < b)"
| "js_lt (Num a) Infinity = True"
| "js_lt NegInfinity (Num b) = True"
| "js_lt NegInfinity Infinity = True"
| "js_lt _ _ = False"

text \<open>The operator \<open>a >= b\<close>: false as soon as one side is \<open>NaN\<close>, else the negation of \<open>a < b\<close>.\<close>

fun js_ge :: "number \<Rightarrow> number \<Rightarrow> bool" where
  "js_ge NaN _ = False"
| "js_ge _ NaN = False"
| "js_ge a b = (\<not> js_lt a b)"

text \<open>
  An optional field \<open>x?: number\<close> is a \<open>number option\<close>, \<open>None\<close> being \<open>undefined\<close>.
  \<open>or_default x d\<close> is the expression \<open>x || d\<close>: the default is taken when \<open>x\<close> is
  \<open>undefined\<close> and also when it is a falsy number.
\<close>

definition or_default :: "number option \<Rightarrow> number \<Rightarrow> number" where
  "or_default x d = (case x of None \<Rightarrow> d | Some n \<Rightarrow> if truthy n then n else d)"

text \<open>
  \<open>and_then x p\<close> is the truthiness of \<open>x && p(x)\<close> for a test \<open>p\<close> yielding a boolean:
  the test is evaluated only when \<open>x\<close> is a truthy number.
\<close>

definition and_then :: "number option \<Rightarrow> (number \<Rightarrow> bool) \<Rightarrow> bool" where
  "and_then x p = (case x of None \<Rightarrow> False | Some n \<Rightarrow> if truthy n then p n else False)"

section \<open>Classification results\<close>

datatype ClassificationColor = green | yellow | pink | red

datatype Urgency = routine | urgent | emergency

record ClassificationResult =
  classification :: string
  color :: ClassificationColor
  requiresReferral :: bool
  urgency :: "Urgency option"
  treatment :: "string option"

section \<open>The domain classifiers\<close>

text \<open>
  Each classifier takes one object; its fields are the fields of a record. A field name
  that occurs in two of the source's parameter objects carries the domain as a prefix in
  the later record (\<open>diarrhea_notAbleToDrink\<close>, \<open>diarrhea_lethargicUnconscious\<close>,
  \<open>fever_hasDangerSigns\<close>).
\<close>

subsection \<open>General danger signs\<close>

record DangerSignsData =
  notAbleToDrink :: bool
  vomitsEverything :: bool
  hasConvulsions :: bool
  lethargicUnconscious :: bool
  convulsingNow :: bool

definition assessDangerSigns :: "DangerSignsData \<Rightarrow> ClassificationResult" where
  "assessDangerSigns d =
    (let hasDangerSign =
           (notAbleToDrink d \<or> vomitsEverything d \<or> hasConvulsions d \<or>
            lethargicUnconscious d \<or> convulsingNow d)
     in if hasDangerSign then
          \<lparr> classification = ''General Danger Signs Present'',
            color = red,
            requiresReferral = True,
            urgency = Some emergency,
            treatment = Some ''Give first dose of appropriate antibiotic. Refer URGENTLY to hospital.'' \<rparr>
        else
          \<lparr> classification = ''No General Danger Signs'',
            color = green,
            requiresReferral = False,
            urgency = None,
            treatment = None \<rparr>)"

subsection \<open>Cough or difficult breathing\<close>

record CoughBreathingData =
  hasCoughDifficultyBreathing :: bool
  coughDurationDays :: "number option"
  breathsPerMinute :: "number option"
  ageInMonths :: number
  chestIndrawing :: bool
  stridor :: bool
  hasDangerSigns :: bool

definition assessCoughBreathing :: "CoughBreathingData \<Rightarrow> ClassificationResult" where
  "assessCoughBreathing d =
    (if \<not> hasCoughDifficultyBreathing d then
       \<lparr> classification = ''No Cough or Breathing Problem'',
         color = green,
         requiresReferral = False,
         urgency = None,
         treatment = None \<rparr>
     else
       let fastBreathingThreshold =
             (if js_lt (ageInMonths d) (Num 2) then Num 60
              else if js_lt (ageInMonths d) (Num 12) then Num 50 else Num 40);
           hasFastBreathing =
             js_ge (or_default (breathsPerMinute d) (Num 0)) fastBreathingThreshold
       in if hasDangerSigns d \<or> stridor d \<or> chestIndrawing d then
            \<lparr> classification = ''Severe Pneumonia or Very Severe Disease'',
              color = red,
              requiresReferral = True,
              urgency = Some emergency,
              treatment = Some ''Give first dose of antibiotic. Give first dose of paracetamol for high fever. Refer URGENTLY to hospital.'' \<rparr>
          else if hasFastBreathing then
            \<lparr> classification = ''Pneumonia'',
              color = yellow,
              requiresReferral = False,
              urgency = None,
              treatment = Some ''Give oral antibiotic for 5 days. Soothe the throat with safe remedy. If wheezing, give bronchodilator for 5 days. Follow up in 2 days.'' \<rparr>
          else
            \<lparr> classification = ''No Pneumonia: Cough or Cold'',
              color = green,
              requiresReferral = False,
              urgency = None,
              treatment = Some ''If coughing more than 14 days, refer for assessment. Soothe the throat with safe remedy. Follow up in 5 days if not improving.'' \<rparr>)"

subsection \<open>Diarrhea\<close>

record DiarrheaData =
  hasDiarrhea :: bool
  diarrheaDurationDays :: "number option"
  bloodInStool :: bool
  sunkenEyes :: bool
  skinPinchSlow :: bool
  skinPinchVerySlow :: bool
  restlessIrritable :: bool
  drinksEagerly :: bool
  diarrhea_notAbleToDrink :: bool
  diarrhea_lethargicUnconscious :: bool

definition assessDiarrhea :: "DiarrheaData \<Rightarrow> ClassificationResult" where
  "assessDiarrhea d =
    (if \<not> hasDiarrhea d then
       \<lparr> classification = ''No Diarrhea'',
         color = green,
         requiresReferral = False,
         urgency = None,
         treatment = None \<rparr>
     else if (diarrhea_lethargicUnconscious d \<or> diarrhea_notAbleToDrink d) \<or>
             (sunkenEyes d \<and> skinPinchVerySlow d) then
       \<lparr> classification = ''Severe Dehydration'',
         color = red,
         requiresReferral = True,
         urgency = Some emergency,
         treatment = Some ''If child has no other severe classification: Give fluid for severe dehydration (Plan C). If child also has another severe classification: Refer URGENTLY with mother giving frequent sips of ORS. Advise to continue breastfeeding.'' \<rparr>
     else if restlessIrritable d \<or> sunkenEyes d \<or> drinksEagerly d \<or> skinPinchSlow d then
       \<lparr> classification = ''Some Dehydration'',
         color = yellow,
         requiresReferral = False,
         urgency = None,
         treatment = Some ''Give fluid and food for some dehydration (Plan B). If child also has a severe classification, refer URGENTLY with mother giving frequent sips of ORS on the way. Advise to continue breastfeeding.'' \<rparr>
     else if bloodInStool d then
       \<lparr> classification = ''Dysentery'',
         color = yellow,
         requiresReferral = False,
         urgency = None,
         treatment = Some ''Give ciprofloxacin for 3 days. Follow up in 2 days.'' \<rparr>
     else if js_ge (or_default (diarrheaDurationDays d) (Num 0)) (Num 14) then
       \<lparr> classification = ''Persistent Diarrhea'',
         color = yellow,
         requiresReferral = True,
         urgency = Some routine,
         treatment = Some ''Refer for assessment and treatment.'' \<rparr>
     else
       \<lparr> classification = ''No Dehydration'',
         color = green,
         requiresReferral = False,
         urgency = None,
         treatment = Some ''Give fluid and food to treat diarrhea at home (Plan A). Give zinc supplements for 10-14 days. Advise mother when to return immediately. Follow up in 5 days if not improving.'' \<rparr>)"

subsection \<open>Fever\<close>

record FeverData =
  hasFever :: bool
  feverDurationDays :: "number option"
  temperature :: "number option"
  stiffNeck :: bool
  malariaRdtResult :: "string option"
  generalizedRash :: bool
  runnyNose :: bool
  mouthUlcers :: bool
  pusDrainingEye :: bool
  cloudingCornea :: bool
  fever_hasDangerSigns :: bool

definition assessFever :: "FeverData \<Rightarrow> ClassificationResult" where
  "assessFever d =
    (if \<not> hasFever d then
       \<lparr> classification = ''No Fever'',
         color = green,
         requiresReferral = False,
         urgency = None,
         treatment = None \<rparr>
     else if fever_hasDangerSigns d \<or> stiffNeck d then
       \<lparr> classification = ''Very Severe Febrile Disease'',
         color = red,
         requiresReferral = True,
         urgency = Some emergency,
         treatment = Some ''Give first dose of artesunate or quinine for severe malaria. Give first dose of antibiotic for severe bacterial infection. Treat to prevent low blood sugar. Give first dose of paracetamol. Refer URGENTLY.'' \<rparr>
     else if generalizedRash d \<and> runnyNose d then
       (if cloudingCornea d \<or> mouthUlcers d \<or> pusDrainingEye d then
          \<lparr> classification = ''Severe Complicated Measles'',
            color = red,
            requiresReferral = True,
            urgency = Some emergency,
            treatment = Some ''Give vitamin A. Give first dose of antibiotic. If clouding of cornea, apply tetracycline eye ointment. Refer URGENTLY.'' \<rparr>
        else
          \<lparr> classification = ''Measles with Eye or Mouth Complications'',
            color = yellow,
            requiresReferral = False,
            urgency = None,
            treatment = Some ''Give vitamin A. If pus draining from eye, apply tetracycline eye ointment. If mouth ulcers, apply gentian violet.'' \<rparr>)
     else if malariaRdtResult d = Some ''positive'' then
       \<lparr> classification = ''Malaria'',
         color = yellow,
         requiresReferral = False,
         urgency = None,
         treatment = Some ''Give oral antimalarial (ACT) for 3 days. Give paracetamol for fever. Follow up in 2 days if fever persists.'' \<rparr>
     else
       \<lparr> classification =
           (if malariaRdtResult d = Some ''negative'' then ''Fever - No Malaria''
            else ''Fever - Cause Unknown''),
         color = green,
         requiresReferral = js_ge (or_default (feverDurationDays d) (Num 0)) (Num 7),
         urgency = Some routine,
         treatment = Some ''Give paracetamol for fever. Follow up in 2 days if fever persists. If fever for 7 days or more, refer for assessment.'' \<rparr>)"

subsection \<open>Ear problem\<close>

record EarProblemData =
  hasEarProblem :: bool
  earPain :: bool
  earDischarge :: bool
  earDischargeDurationDays :: "number option"
  tenderSwellingBehindEar :: bool

definition assessEarProblem :: "EarProblemData \<Rightarrow> ClassificationResult" where
  "assessEarProblem d =
    (if \<not> hasEarProblem d then
       \<lparr> classification = ''No Ear Problem'',
         color = green,
         requiresReferral = False,
         urgency = None,
         treatment = None \<rparr>
     else if tenderSwellingBehindEar d then
       \<lparr> classification = ''Mastoiditis'',
         color = red,
         requiresReferral = True,
         urgency = Some urgent,
         treatment = Some ''Give first dose of antibiotic. Give first dose of paracetamol for pain. Refer URGENTLY.'' \<rparr>
     else if js_ge (or_default (earDischargeDurationDays d) (Num 0)) (Num 14) then
       \<lparr> classification = ''Chronic Ear Infection'',
         color = yellow,
         requiresReferral = True,
         urgency = Some routine,
         treatment = Some ''Dry the ear by wicking. Refer for specialist assessment.'' \<rparr>
     else if earDischarge d \<or> earPain d then
       \<lparr> classification = ''Acute Ear Infection'',
         color = yellow,
         requiresReferral = False,
         urgency = None,
         treatment = Some ''Give antibiotic for 5 days. Give paracetamol for pain. Dry the ear by wicking. Follow up in 5 days.'' \<rparr>
     else
       \<lparr> classification = ''No Ear Infection'',
         color = green,
         requiresReferral = False,
         urgency = None,
         treatment = None \<rparr>)"

subsection \<open>Nutrition\<close>

record NutritionData =
  visibleSevereWasting :: bool
  edemaBothFeet :: bool
  weightForAge :: "number option"
  muacMeasurement :: "number option"
  palmarPallor :: bool
  severePalmarPallor :: bool

definition assessNutrition :: "NutritionData \<Rightarrow> ClassificationResult" where
  "assessNutrition d =
    (if visibleSevereWasting d \<or> edemaBothFeet d \<or>
        and_then (muacMeasurement d) (\<lambda>m. js_lt m (Num 11.5)) \<or>
        and_then (weightForAge d) (\<lambda>w. js_lt w (Num (- 3))) then
       \<lparr> classification = ''Severe Acute Malnutrition'',
         color = red,
         requiresReferral = True,
         urgency = Some urgent,
         treatment = Some ''Give vitamin A. Treat the child to prevent low blood sugar. Keep child warm. Refer URGENTLY.'' \<rparr>
     else if severePalmarPallor d then
       \<lparr> classification = ''Severe Anemia'',
         color = red,
         requiresReferral = True,
         urgency = Some urgent,
         treatment = Some ''Refer URGENTLY.'' \<rparr>
     else if and_then (muacMeasurement d) (\<lambda>m. js_ge m (Num 11.5) \<and> js_lt m (Num 12.5)) \<or>
             and_then (weightForAge d) (\<lambda>w. js_ge w (Num (- 3)) \<and> js_lt w (Num (- 2))) then
       \<lparr> classification = ''Moderate Acute Malnutrition'',
         color = yellow,
         requiresReferral = False,
         urgency = None,
         treatment = Some ''Assess feeding and give counseling. Give supplementary feeding. Give vitamin A every 6 months. Follow up in 14 days.'' \<rparr>
     else if palmarPallor d then
       \<lparr> classification = ''Anemia'',
         color = yellow,
         requiresReferral = False,
         urgency = None,
         treatment = Some ''Give iron and folic acid. Give mebendazole if child is 1 year or older. Follow up in 14 days.'' \<rparr>
     else
       \<lparr> classification = ''No Malnutrition or Anemia'',
         color = green,
         requiresReferral = False,
         urgency = None,
         treatment = Some ''Counsel on feeding. Give vitamin A every 6 months.'' \<rparr>)"

section \<open>The aggregator\<close>

text \<open>\<open>Array.prototype.indexOf\<close>: the first index holding the element, \<open>-1\<close> when none does.\<close>

fun indexFrom :: "int \<Rightarrow> 'a list \<Rightarrow> 'a \<Rightarrow> int" where
  "indexFrom i [] x = - 1"
| "indexFrom i (y # ys) x = (if y = x then i else indexFrom (i + 1) ys x)"

definition indexOf :: "'a list \<Rightarrow> 'a \<Rightarrow> int" where
  "indexOf xs x = indexFrom 0 xs x"

definition priorityOrder :: "ClassificationColor list" where
  "priorityOrder = [green, yellow, pink, red]"

text \<open>
  The four variables the \<open>forEach\<close> callback updates. \<open>referralUrgency\<close> is a string in
  the source and stays one here.
\<close>

record LoopVars =
  var_criticalFindings :: "string list"
  var_highestPriority :: ClassificationColor
  var_referralUrgency :: string
  var_requiresReferral :: bool

definition initialVars :: LoopVars where
  "initialVars =
    \<lparr> var_criticalFindings = [],
      var_highestPriority = green,
      var_referralUrgency = ''none'',
      var_requiresReferral = False \<rparr>"

text \<open>One call of the callback of \<open>classifications.forEach\<close>: its three statements in order.\<close>

definition noteReferral :: "ClassificationResult \<Rightarrow> LoopVars \<Rightarrow> LoopVars" where
  "noteReferral c s =
    (if requiresReferral c then
       s\<lparr> var_requiresReferral := True,
          var_criticalFindings := var_criticalFindings s @ [classification c] \<rparr>
     else s)"

definition notePriority :: "ClassificationResult \<Rightarrow> LoopVars \<Rightarrow> LoopVars" where
  "notePriority c s =
    (if indexOf priorityOrder (color c) > indexOf priorityOrder (var_highestPriority s) then
       s\<lparr> var_highestPriority := color c \<rparr>
     else s)"

definition noteUrgency :: "ClassificationResult \<Rightarrow> LoopVars \<Rightarrow> LoopVars" where
  "noteUrgency c s =
    (if urgency c = Some emergency then
       s\<lparr> var_referralUrgency := ''emergency'' \<rparr>
     else if urgency c = Some urgent \<and> var_referralUrgency s \<noteq> ''emergency'' then
       s\<lparr> var_referralUrgency := ''urgent'' \<rparr>
     else if urgency c = Some routine \<and> var_referralUrgency s = ''none'' then
       s\<lparr> var_referralUrgency := ''routine'' \<rparr>
     else s)"

definition callback :: "LoopVars \<Rightarrow> ClassificationResult \<Rightarrow> LoopVars" where
  "callback s c = noteUrgency c (notePriority c (noteReferral c s))"

record OverallAssessment =
  overallClassification :: string
  overallColor :: ClassificationColor
  overallRequiresReferral :: bool
  referralUrgency :: string
  criticalFindings :: "string list"

definition calculateOverallAssessment :: "ClassificationResult list \<Rightarrow> OverallAssessment" where
  "calculateOverallAssessment classifications =
    (let s = foldl callback initialVars classifications;
         colorPriority = indexOf priorityOrder (var_highestPriority s);
         redPriority = indexOf priorityOrder red;
         yellowPriority = indexOf priorityOrder yellow;
         label =
           (if colorPriority \<ge> redPriority then ''REFER URGENTLY - Severe Classification''
            else if colorPriority \<ge> yellowPriority \<and> var_requiresReferral s then
              ''REFER - Treatment Required at Higher Facility''
            else if colorPriority \<ge> yellowPriority then ''Treatment at PHU - Follow up required''
            else ''Child can be treated at home'')
     in \<lparr> overallClassification = label,
          overallColor = var_highestPriority s,
          overallRequiresReferral = var_requiresReferral s,
          referralUrgency = (if var_requiresReferral s then var_referralUrgency s else ''none''),
          criticalFindings = var_criticalFindings s \<rparr>)"

section \<open>The orders of the specification\<close>

text \<open>
  The severity order on colors, \<open>green < yellow < pink < red\<close>, and the order on
  urgencies, \<open>routine < urgent < emergency\<close> with an absent urgency below all three,
  written down on their own: the aggregator is compared against them.
\<close>

fun colorRank :: "ClassificationColor \<Rightarrow> nat" where
  "colorRank green = 0"
| "colorRank yellow = 1"
| "colorRank pink = 2"
| "colorRank red = 3"

fun urgencyRank :: "Urgency option \<Rightarrow> nat" where
  "urgencyRank None = 0"
| "urgencyRank (Some routine) = 1"
| "urgencyRank (Some urgent) = 2"
| "urgencyRank (Some emergency) = 3"

text \<open>The string the aggregator reports for an urgency, \<open>none\<close> for an absent one.\<close>

fun urgencyName :: "Urgency option \<Rightarrow> string" where
  "urgencyName None = ''none''"
| "urgencyName (Some routine) = ''routine''"
| "urgencyName (Some urgent) = ''urgent''"
| "urgencyName (Some emergency) = ''emergency''"

definition higher :: "Urgency option \<Rightarrow> Urgency option \<Rightarrow> Urgency option" where
  "higher a b = (if urgencyRank a < urgencyRank b then b else a)"

text \<open>The highest urgency of a list of urgency fields; absent for the empty list.\<close>

definition highestUrgency :: "Urgency option list \<Rightarrow> Urgency option" where
  "highestUrgency us = foldl higher None us"

text \<open>
  What a result must satisfy for its referral fields to agree with each other: a red
  result requires referral with urgency urgent or emergency, and a result that requires
  referral carries an urgency.
\<close>

definition referralConsistent :: "ClassificationResult \<Rightarrow> bool" where
  "referralConsistent r =
    ((color r = red \<longrightarrow>
        requiresReferral r \<and> (urgency r = Some urgent \<or> urgency r = Some emergency)) \<and>
     (requiresReferral r \<longrightarrow>
        urgency r = Some routine \<or> urgency r = Some urgent \<or> urgency r = Some emergency))"

text \<open>
  How the classifiers relate the two fields: a result that requires referral carries an
  urgency, and a result that does not carries none or \<open>routine\<close>.
\<close>

definition urgencyFollowsReferral :: "ClassificationResult \<Rightarrow> bool" where
  "urgencyFollowsReferral r =
    (if requiresReferral r then urgency r \<noteq> None
     else urgency r = None \<or> urgency r = Some routine)"

section \<open>Concrete observations\<close>

text \<open>A child of ten months with a cough, 45 breaths per minute and no other sign.\<close>

definition coughColdInput :: CoughBreathingData where
  "coughColdInput =
    \<lparr> hasCoughDifficultyBreathing = True, coughDurationDays = None,
      breathsPerMinute = Some (Num 45), ageInMonths = Num 10, chestIndrawing = False,
      stridor = False, hasDangerSigns = False \<rparr>"

text \<open>Diarrhea, fever and an ear problem reported with no further sign.\<close>

definition plainDiarrheaInput :: DiarrheaData where
  "plainDiarrheaInput =
    \<lparr> hasDiarrhea = True, diarrheaDurationDays = None, bloodInStool = False,
      sunkenEyes = False, skinPinchSlow = False, skinPinchVerySlow = False,
      restlessIrritable = False, drinksEagerly = False, diarrhea_notAbleToDrink = False,
      diarrhea_lethargicUnconscious = False \<rparr>"

definition plainFeverInput :: FeverData where
  "plainFeverInput =
    \<lparr> hasFever = True, feverDurationDays = None, temperature = None, stiffNeck = False,
      malariaRdtResult = None, generalizedRash = False, runnyNose = False,
      mouthUlcers = False, pusDrainingEye = False, cloudingCornea = False,
      fever_hasDangerSigns = False \<rparr>"

definition plainEarInput :: EarProblemData where
  "plainEarInput =
    \<lparr> hasEarProblem = True, earPain = False, earDischarge = False,
      earDischargeDurationDays = None, tenderSwellingBehindEar = False \<rparr>"

text \<open>No sign of malnutrition or anemia, and a mid-upper-arm circumference recorded as 0.\<close>

definition zeroMuacInput :: NutritionData where
  "zeroMuacInput =
    \<lparr> visibleSevereWasting = False, edemaBothFeet = False, weightForAge = None,
      muacMeasurement = Some (Num 0), palmarPallor = False, severePalmarPallor = False \<rparr>"

text \<open>A child with none of the five general danger signs.\<close>

definition noDangerSignsInput :: DangerSignsData where
  "noDangerSignsInput =
    \<lparr> notAbleToDrink = False, vomitsEverything = False, hasConvulsions = False,
      lethargicUnconscious = False, convulsingNow = False \<rparr>"

section \<open>Concrete lists of results\<close>

text \<open>A child unable to drink, with a cough that is no pneumonia: one red result, one green.\<close>

definition redAndGreenResults :: "ClassificationResult list" where
  "redAndGreenResults =
    [assessDangerSigns (noDangerSignsInput\<lparr>notAbleToDrink := True\<rparr>),
     assessCoughBreathing coughColdInput]"

text \<open>
  Diarrhea for fourteen days (yellow, routine referral), a fever with no further sign
  (green, no referral, urgency routine) and a tender swelling behind the ear (red, urgent
  referral).
\<close>

definition referralResults :: "ClassificationResult list" where
  "referralResults =
    [assessDiarrhea (plainDiarrheaInput\<lparr>diarrheaDurationDays := Some (Num 14)\<rparr>),
     assessFever plainFeverInput,
     assessEarProblem (plainEarInput\<lparr>tenderSwellingBehindEar := True\<rparr>)]"

text \<open>
  Two results as the type \<open>ClassificationResult\<close> admits them: a routine referral, and a
  result that requires no referral but carries the urgency \<open>emergency\<close>.
\<close>

definition mixedUrgencyResults :: "ClassificationResult list" where
  "mixedUrgencyResults =
    [\<lparr> classification = ''Persistent Diarrhea'', color = yellow, requiresReferral = True,
       urgency = Some routine, treatment = None \<rparr>,
     \<lparr> classification = ''Under observation'', color = green, requiresReferral = False,
       urgency = Some emergency, treatment = None \<rparr>]"

text \<open>
  The six results of one assessment, in the order of its steps: a fever of seven days with
  no further sign, and nothing else found.
\<close>

definition weekLongFeverResults :: "ClassificationResult list" where
  "weekLongFeverResults =
    [assessDangerSigns noDangerSignsInput,
     assessCoughBreathing coughColdInput,
     assessDiarrhea plainDiarrheaInput,
     assessFever (plainFeverInput\<lparr>feverDurationDays := Some (Num 7)\<rparr>),
     assessEarProblem plainEarInput,
     assessNutrition (zeroMuacInput\<lparr>muacMeasurement := Some (Num 13)\<rparr>)]"

section \<open>The presence flags\<close>

lemma assessCoughBreathing_absent:
  "\<not> hasCoughDifficultyBreathing d \<Longrightarrow>
     assessCoughBreathing d =
       \<lparr> classification = ''No Cough or Breathing Problem'', color = green,
         requiresReferral = False, urgency = None, treatment = None \<rparr>"
  by (simp add: assessCoughBreathing_def)

lemma assessDiarrhea_absent:
  "\<not> hasDiarrhea d \<Longrightarrow>
     assessDiarrhea d =
       \<lparr> classification = ''No Diarrhea'', color = green,
         requiresReferral = False, urgency = None, treatment = None \<rparr>"
  by (simp add: assessDiarrhea_def)

lemma assessFever_absent:
  "\<not> hasFever d \<Longrightarrow>
     assessFever d =
       \<lparr> classification = ''No Fever'', color = green,
         requiresReferral = False, urgency = None, treatment = None \<rparr>"
  by (simp add: assessFever_def)

lemma assessEarProblem_absent:
  "\<not> hasEarProblem d \<Longrightarrow>
     assessEarProblem d =
       \<lparr> classification = ''No Ear Problem'', color = green,
         requiresReferral = False, urgency = None, treatment = None \<rparr>"
  by (simp add: assessEarProblem_def)

text \<open>
  Claim C1, as stated: a classifier with a presence flag returns green without referral
  exactly when the flag is false. The direction from the result to the flag fails in each
  of the four classifiers that have such a flag: a reported problem with no further sign
  is classified green without referral (\<open>No Pneumonia: Cough or Cold\<close>,
  \<open>No Dehydration\<close>, \<open>Fever - Cause Unknown\<close>, \<open>No Ear Infection\<close>). The nutrition
  classifier has no presence flag at all.
\<close>

theorem presence_flag_iff_counterexample:
  "\<not> ((color (assessCoughBreathing coughColdInput) = green \<and>
        requiresReferral (assessCoughBreathing coughColdInput) = False)
       \<longleftrightarrow> hasCoughDifficultyBreathing coughColdInput = False) \<and>
   \<not> ((color (assessDiarrhea plainDiarrheaInput) = green \<and>
        requiresReferral (assessDiarrhea plainDiarrheaInput) = False)
       \<longleftrightarrow> hasDiarrhea plainDiarrheaInput = False) \<and>
   \<not> ((color (assessFever plainFeverInput) = green \<and>
        requiresReferral (assessFever plainFeverInput) = False)
       \<longleftrightarrow> hasFever plainFeverInput = False) \<and>
   \<not> ((color (assessEarProblem plainEarInput) = green \<and>
        requiresReferral (assessEarProblem plainEarInput) = False)
       \<longleftrightarrow> hasEarProblem plainEarInput = False)"
proof -
  have "color (assessCoughBreathing coughColdInput) = green"
    and "\<not> requiresReferral (assessCoughBreathing coughColdInput)"
    and "hasCoughDifficultyBreathing coughColdInput"
    by (simp_all add: assessCoughBreathing_def coughColdInput_def or_default_def)
  moreover have "color (assessDiarrhea plainDiarrheaInput) = green"
    and "\<not> requiresReferral (assessDiarrhea plainDiarrheaInput)"
    and "hasDiarrhea plainDiarrheaInput"
    by (simp_all add: assessDiarrhea_def plainDiarrheaInput_def or_default_def)
  moreover have "color (assessFever plainFeverInput) = green"
    and "\<not> requiresReferral (assessFever plainFeverInput)"
    and "hasFever plainFeverInput"
    by (simp_all add: assessFever_def plainFeverInput_def or_default_def)
  moreover have "color (assessEarProblem plainEarInput) = green"
    and "\<not> requiresReferral (assessEarProblem plainEarInput)"
    and "hasEarProblem plainEarInput"
    by (simp_all add: assessEarProblem_def plainEarInput_def or_default_def)
  ultimately show ?thesis by simp
qed

text \<open>
  Claim C1, amended: in each of the four classifiers that have a presence flag
  (cough/breathing, diarrhea, fever, ear), a false flag gives color green and no
  referral. The converse is not claimed.
\<close>

theorem absent_problem_is_green:
  "(\<not> hasCoughDifficultyBreathing b \<longrightarrow>
      color (assessCoughBreathing b) = green \<and> \<not> requiresReferral (assessCoughBreathing b)) \<and>
   (\<not> hasDiarrhea c \<longrightarrow>
      color (assessDiarrhea c) = green \<and> \<not> requiresReferral (assessDiarrhea c)) \<and>
   (\<not> hasFever f \<longrightarrow>
      color (assessFever f) = green \<and> \<not> requiresReferral (assessFever f)) \<and>
   (\<not> hasEarProblem e \<longrightarrow>
      color (assessEarProblem e) = green \<and> \<not> requiresReferral (assessEarProblem e))"
  by (simp add: assessCoughBreathing_absent assessDiarrhea_absent assessFever_absent
      assessEarProblem_absent)

theorem absent_problem_is_green_witness:
  "color (assessCoughBreathing (coughColdInput\<lparr>hasCoughDifficultyBreathing := False\<rparr>)) = green \<and>
   requiresReferral (assessCoughBreathing (coughColdInput\<lparr>hasCoughDifficultyBreathing := False\<rparr>)) = False \<and>
   color (assessDiarrhea (plainDiarrheaInput\<lparr>hasDiarrhea := False\<rparr>)) = green \<and>
   requiresReferral (assessDiarrhea (plainDiarrheaInput\<lparr>hasDiarrhea := False\<rparr>)) = False \<and>
   color (assessFever (plainFeverInput\<lparr>hasFever := False\<rparr>)) = green \<and>
   requiresReferral (assessFever (plainFeverInput\<lparr>hasFever := False\<rparr>)) = False \<and>
   color (assessEarProblem (plainEarInput\<lparr>hasEarProblem := False\<rparr>)) = green \<and>
   requiresReferral (assessEarProblem (plainEarInput\<lparr>hasEarProblem := False\<rparr>)) = False"
  using absent_problem_is_green
    [of "coughColdInput\<lparr>hasCoughDifficultyBreathing := False\<rparr>"
        "plainDiarrheaInput\<lparr>hasDiarrhea := False\<rparr>"
        "plainFeverInput\<lparr>hasFever := False\<rparr>"
        "plainEarInput\<lparr>hasEarProblem := False\<rparr>"]
  by simp

section \<open>Severe acute malnutrition\<close>

lemma and_then_Some: "and_then (Some m) p = (truthy m \<and> p m)"
  by (simp add: and_then_def)

lemma and_then_zero: "and_then (Some (Num 0)) p = and_then None p"
  by (simp add: and_then_def)

lemma truthy_lt_negative: "r < 0 \<Longrightarrow> js_lt w (Num r) \<Longrightarrow> truthy w"
  by (cases w) auto

text \<open>
  Claim C4, as stated: a MUAC measurement that is present and below 11.5 gives
  \<open>Severe Acute Malnutrition\<close>, whatever value is supplied. The guard
  \<open>data.muacMeasurement && data.muacMeasurement < 11.5\<close> tests the measurement for
  truthiness first, so a measurement of 0, which is below 11.5, is passed over: with no
  other sign the child is classified \<open>No Malnutrition or Anemia\<close>, green.
\<close>

theorem zero_muac_counterexample:
  "muacMeasurement zeroMuacInput = Some (Num 0) \<and> js_lt (Num 0) (Num 11.5) \<and>
   classification (assessNutrition zeroMuacInput) = ''No Malnutrition or Anemia'' \<and>
   color (assessNutrition zeroMuacInput) = green \<and>
   requiresReferral (assessNutrition zeroMuacInput) = False \<and>
   urgency (assessNutrition zeroMuacInput) = None"
  by (simp add: assessNutrition_def zeroMuacInput_def and_then_def)

text \<open>
  Claim C4, amended: visible severe wasting, bilateral edema, a MUAC measurement that is
  present, not zero and strictly below 11.5, or a weight-for-age z-score that is present
  and strictly below -3, each give \<open>Severe Acute Malnutrition\<close>, red, referral required,
  urgency urgent. No other validation is done (a negative MUAC is compared as it is); a
  MUAC of 0 is classified as an absent MUAC is.
\<close>

theorem severe_acute_malnutrition:
  "(visibleSevereWasting d \<or> edemaBothFeet d \<or>
    (\<exists>m. muacMeasurement d = Some m \<and> m \<noteq> Num 0 \<and> js_lt m (Num 11.5)) \<or>
    (\<exists>w. weightForAge d = Some w \<and> js_lt w (Num (- 3)))
    \<longrightarrow> classification (assessNutrition d) = ''Severe Acute Malnutrition'' \<and>
        color (assessNutrition d) = red \<and> requiresReferral (assessNutrition d) \<and>
        urgency (assessNutrition d) = Some urgent) \<and>
   assessNutrition (d\<lparr>muacMeasurement := Some (Num 0)\<rparr>) =
     assessNutrition (d\<lparr>muacMeasurement := None\<rparr>)"
proof (intro conjI impI)
  assume h: "visibleSevereWasting d \<or> edemaBothFeet d \<or>
    (\<exists>m. muacMeasurement d = Some m \<and> m \<noteq> Num 0 \<and> js_lt m (Num 11.5)) \<or>
    (\<exists>w. weightForAge d = Some w \<and> js_lt w (Num (- 3)))"
  have muac: "and_then (muacMeasurement d) (\<lambda>m. js_lt m (Num 11.5))"
    if "muacMeasurement d = Some m" "m \<noteq> Num 0" "js_lt m (Num 11.5)" for m
    using that by (cases m) (simp_all add: and_then_Some)
  have wfa: "and_then (weightForAge d) (\<lambda>w. js_lt w (Num (- 3)))"
    if "weightForAge d = Some w" "js_lt w (Num (- 3))" for w
    using that truthy_lt_negative [of "- 3" w] by (simp add: and_then_Some)
  from h muac wfa
  have c: "visibleSevereWasting d \<or> edemaBothFeet d \<or>
        and_then (muacMeasurement d) (\<lambda>m. js_lt m (Num 11.5)) \<or>
        and_then (weightForAge d) (\<lambda>w. js_lt w (Num (- 3)))"
    by blast
  show "classification (assessNutrition d) = ''Severe Acute Malnutrition''"
    using c unfolding assessNutrition_def by simp
  show "color (assessNutrition d) = red"
    using c unfolding assessNutrition_def by simp
  show "requiresReferral (assessNutrition d)"
    using c unfolding assessNutrition_def by simp
  show "urgency (assessNutrition d) = Some urgent"
    using c unfolding assessNutrition_def by simp
next
  show "assessNutrition (d\<lparr>muacMeasurement := Some (Num 0)\<rparr>) =
     assessNutrition (d\<lparr>muacMeasurement := None\<rparr>)"
    by (simp add: assessNutrition_def and_then_zero)
qed

text \<open>The theorem at a MUAC of 11.0 and at a MUAC of -4.\<close>

theorem severe_acute_malnutrition_witness:
  "classification (assessNutrition (zeroMuacInput\<lparr>muacMeasurement := Some (Num 11.0)\<rparr>)) =
     ''Severe Acute Malnutrition'' \<and>
   color (assessNutrition (zeroMuacInput\<lparr>muacMeasurement := Some (Num 11.0)\<rparr>)) = red \<and>
   requiresReferral (assessNutrition (zeroMuacInput\<lparr>muacMeasurement := Some (Num 11.0)\<rparr>)) \<and>
   urgency (assessNutrition (zeroMuacInput\<lparr>muacMeasurement := Some (Num 11.0)\<rparr>)) = Some urgent \<and>
   color (assessNutrition (zeroMuacInput\<lparr>muacMeasurement := Some (Num (- 4))\<rparr>)) = red"
  using severe_acute_malnutrition [of "zeroMuacInput\<lparr>muacMeasurement := Some (Num 11.0)\<rparr>"]
    severe_acute_malnutrition [of "zeroMuacInput\<lparr>muacMeasurement := Some (Num (- 4))\<rparr>"]
  by (simp add: zeroMuacInput_def)

section \<open>Rule order in the diarrhea classifier\<close>

text \<open>
  Claim C6: with diarrhea present, lethargy or unconsciousness, inability to drink, or
  sunken eyes together with a very slow skin pinch give \<open>Severe Dehydration\<close>, red,
  referral required, urgency emergency, whatever the other flags are; blood in the stool
  does not change it.
\<close>

theorem severe_dehydration_first:
  "hasDiarrhea d \<Longrightarrow>
   diarrhea_lethargicUnconscious d \<or> diarrhea_notAbleToDrink d \<or>
     (sunkenEyes d \<and> skinPinchVerySlow d) \<Longrightarrow>
   classification (assessDiarrhea d) = ''Severe Dehydration'' \<and>
   color (assessDiarrhea d) = red \<and> requiresReferral (assessDiarrhea d) \<and>
   urgency (assessDiarrhea d) = Some emergency"
  unfolding assessDiarrhea_def by auto

text \<open>The theorem at a lethargic child with blood in the stool.\<close>

theorem severe_dehydration_first_witness:
  "bloodInStool (plainDiarrheaInput\<lparr>bloodInStool := True, diarrhea_lethargicUnconscious := True\<rparr>) \<and>
   classification (assessDiarrhea
      (plainDiarrheaInput\<lparr>bloodInStool := True, diarrhea_lethargicUnconscious := True\<rparr>)) =
     ''Severe Dehydration'' \<and>
   color (assessDiarrhea
      (plainDiarrheaInput\<lparr>bloodInStool := True, diarrhea_lethargicUnconscious := True\<rparr>)) = red \<and>
   requiresReferral (assessDiarrhea
      (plainDiarrheaInput\<lparr>bloodInStool := True, diarrhea_lethargicUnconscious := True\<rparr>)) \<and>
   urgency (assessDiarrhea
      (plainDiarrheaInput\<lparr>bloodInStool := True, diarrhea_lethargicUnconscious := True\<rparr>)) =
     Some emergency"
  using severe_dehydration_first
    [of "plainDiarrheaInput\<lparr>bloodInStool := True, diarrhea_lethargicUnconscious := True\<rparr>"]
  by (simp add: plainDiarrheaInput_def)

section \<open>Fast breathing\<close>

lemma or_default_ge:
  "0 < t \<Longrightarrow> js_ge (or_default x (Num 0)) (Num t) = (\<exists>r. x = Some r \<and> js_ge r (Num t))"
proof (cases x)
  case None
  assume "0 < t"
  with None show ?thesis by (simp add: or_default_def)
next
  case (Some n)
  assume "0 < t"
  with Some show ?thesis by (cases n) (simp_all add: or_default_def)
qed

text \<open>
  Claim C7: with a cough or breathing problem present and no danger sign, stridor or
  chest indrawing, the result is \<open>Pneumonia\<close> (yellow, no referral) exactly when the
  respiratory rate is present and at least the threshold of the age band (60 below 2
  months, 50 below 12 months, 40 otherwise); otherwise, and so when the rate is missing,
  it is \<open>No Pneumonia: Cough or Cold\<close>, green.
\<close>

theorem fast_breathing_pneumonia:
  assumes "hasCoughDifficultyBreathing d"
    and "\<not> hasDangerSigns d" and "\<not> stridor d" and "\<not> chestIndrawing d"
  shows
    "let threshold =
           (if js_lt (ageInMonths d) (Num 2) then 60
            else if js_lt (ageInMonths d) (Num 12) then 50 else 40);
         fast = (\<exists>r. breathsPerMinute d = Some r \<and> js_ge r (Num threshold))
     in (classification (assessCoughBreathing d) = ''Pneumonia'') = fast \<and>
        (fast \<longrightarrow> color (assessCoughBreathing d) = yellow \<and>
                  \<not> requiresReferral (assessCoughBreathing d)) \<and>
        (\<not> fast \<longrightarrow> classification (assessCoughBreathing d) = ''No Pneumonia: Cough or Cold'' \<and>
                  color (assessCoughBreathing d) = green)"
  using assms
  by (simp add: assessCoughBreathing_def Let_def or_default_ge)

text \<open>The theorem at ten months of age with a rate of 55, a rate of 45 and no rate.\<close>

theorem fast_breathing_pneumonia_witness:
  "classification (assessCoughBreathing (coughColdInput\<lparr>breathsPerMinute := Some (Num 55)\<rparr>)) =
     ''Pneumonia'' \<and>
   color (assessCoughBreathing (coughColdInput\<lparr>breathsPerMinute := Some (Num 55)\<rparr>)) = yellow \<and>
   classification (assessCoughBreathing coughColdInput) = ''No Pneumonia: Cough or Cold'' \<and>
   color (assessCoughBreathing coughColdInput) = green \<and>
   classification (assessCoughBreathing (coughColdInput\<lparr>breathsPerMinute := None\<rparr>)) =
     ''No Pneumonia: Cough or Cold''"
  using fast_breathing_pneumonia [of "coughColdInput\<lparr>breathsPerMinute := Some (Num 55)\<rparr>"]
    fast_breathing_pneumonia [of coughColdInput]
    fast_breathing_pneumonia [of "coughColdInput\<lparr>breathsPerMinute := None\<rparr>"]
  by (simp add: coughColdInput_def Let_def)

section \<open>Colors and referral fields of the classifiers' results\<close>

lemma assessDangerSigns_color: "color (assessDangerSigns d) \<in> {green, red}"
  by (simp add: assessDangerSigns_def)

lemma assessCoughBreathing_color: "color (assessCoughBreathing d) \<in> {green, yellow, red}"
  by (simp add: assessCoughBreathing_def Let_def)

lemma assessDiarrhea_color: "color (assessDiarrhea d) \<in> {green, yellow, red}"
  by (simp add: assessDiarrhea_def)

lemma assessFever_color: "color (assessFever d) \<in> {green, yellow, red}"
  by (simp add: assessFever_def)

lemma assessEarProblem_color: "color (assessEarProblem d) \<in> {green, yellow, red}"
  by (simp add: assessEarProblem_def)

lemma assessNutrition_color: "color (assessNutrition d) \<in> {green, yellow, red}"
  by (simp add: assessNutrition_def)

text \<open>
  Claim C8: no classifier returns the color pink; every result is green, yellow or red.
\<close>

theorem classifiers_never_pink:
  "color (assessDangerSigns a) \<noteq> pink \<and> color (assessCoughBreathing b) \<noteq> pink \<and>
   color (assessDiarrhea c) \<noteq> pink \<and> color (assessFever f) \<noteq> pink \<and>
   color (assessEarProblem e) \<noteq> pink \<and> color (assessNutrition n) \<noteq> pink"
proof (intro conjI)
  show "color (assessDangerSigns a) \<noteq> pink"
    using assessDangerSigns_color [of a] by auto
  show "color (assessCoughBreathing b) \<noteq> pink"
    using assessCoughBreathing_color [of b] by auto
  show "color (assessDiarrhea c) \<noteq> pink"
    using assessDiarrhea_color [of c] by auto
  show "color (assessFever f) \<noteq> pink"
    using assessFever_color [of f] by auto
  show "color (assessEarProblem e) \<noteq> pink"
    using assessEarProblem_color [of e] by auto
  show "color (assessNutrition n) \<noteq> pink"
    using assessNutrition_color [of n] by auto
qed

text \<open>The theorem at six concrete observations.\<close>

theorem classifiers_never_pink_witness:
  "color (assessDangerSigns noDangerSignsInput) \<noteq> pink \<and>
   color (assessCoughBreathing coughColdInput) \<noteq> pink \<and>
   color (assessDiarrhea plainDiarrheaInput) \<noteq> pink \<and>
   color (assessFever plainFeverInput) \<noteq> pink \<and>
   color (assessEarProblem plainEarInput) \<noteq> pink \<and>
   color (assessNutrition zeroMuacInput) \<noteq> pink"
  by (rule classifiers_never_pink)

lemma assessDangerSigns_consistent: "referralConsistent (assessDangerSigns d)"
  by (simp add: referralConsistent_def assessDangerSigns_def)

lemma assessCoughBreathing_consistent: "referralConsistent (assessCoughBreathing d)"
  by (simp add: referralConsistent_def assessCoughBreathing_def Let_def)

lemma assessDiarrhea_consistent: "referralConsistent (assessDiarrhea d)"
  by (simp add: referralConsistent_def assessDiarrhea_def)

lemma assessFever_consistent: "referralConsistent (assessFever d)"
  by (simp add: referralConsistent_def assessFever_def)

lemma assessEarProblem_consistent: "referralConsistent (assessEarProblem d)"
  by (simp add: referralConsistent_def assessEarProblem_def)

lemma assessNutrition_consistent: "referralConsistent (assessNutrition d)"
  by (simp add: referralConsistent_def assessNutrition_def)

text \<open>
  Claim C10: in the result of each of the six classifiers, red comes with a required
  referral of urgency urgent or emergency, and a required referral comes with an urgency
  (routine, urgent or emergency), never with an absent one.
\<close>

theorem classifiers_referral_consistent:
  "referralConsistent (assessDangerSigns a) \<and> referralConsistent (assessCoughBreathing b) \<and>
   referralConsistent (assessDiarrhea c) \<and> referralConsistent (assessFever f) \<and>
   referralConsistent (assessEarProblem e) \<and> referralConsistent (assessNutrition n)"
  by (simp add: assessDangerSigns_consistent assessCoughBreathing_consistent
      assessDiarrhea_consistent assessFever_consistent assessEarProblem_consistent
      assessNutrition_consistent)

lemma mastoiditis_red:
  "color (assessEarProblem (plainEarInput\<lparr>tenderSwellingBehindEar := True\<rparr>)) = red"
  by (simp add: assessEarProblem_def plainEarInput_def)

lemma long_fever_referral:
  "requiresReferral (assessFever (plainFeverInput\<lparr>feverDurationDays := Some (Num 7)\<rparr>))"
  by (simp add: assessFever_def plainFeverInput_def or_default_def)

text \<open>The theorem at a tender swelling behind the ear (red) and at a fever of seven days (green, referral).\<close>

theorem classifiers_referral_consistent_witness:
  "color (assessEarProblem (plainEarInput\<lparr>tenderSwellingBehindEar := True\<rparr>)) = red \<and>
   requiresReferral (assessEarProblem (plainEarInput\<lparr>tenderSwellingBehindEar := True\<rparr>)) \<and>
   urgency (assessEarProblem (plainEarInput\<lparr>tenderSwellingBehindEar := True\<rparr>))
     \<in> {Some urgent, Some emergency} \<and>
   requiresReferral (assessFever (plainFeverInput\<lparr>feverDurationDays := Some (Num 7)\<rparr>)) \<and>
   urgency (assessFever (plainFeverInput\<lparr>feverDurationDays := Some (Num 7)\<rparr>)) \<noteq> None"
proof -
  let ?e = "assessEarProblem (plainEarInput\<lparr>tenderSwellingBehindEar := True\<rparr>)"
  let ?f = "assessFever (plainFeverInput\<lparr>feverDurationDays := Some (Num 7)\<rparr>)"
  have c: "referralConsistent ?e" "referralConsistent ?f"
    using classifiers_referral_consistent
      [of noDangerSignsInput coughColdInput plainDiarrheaInput
          "plainFeverInput\<lparr>feverDurationDays := Some (Num 7)\<rparr>"
          "plainEarInput\<lparr>tenderSwellingBehindEar := True\<rparr>" zeroMuacInput]
    by blast+
  have e: "requiresReferral ?e \<and> urgency ?e \<in> {Some urgent, Some emergency}"
    using c(1) mastoiditis_red unfolding referralConsistent_def by blast
  have f: "urgency ?f \<noteq> None"
    using c(2) long_fever_referral unfolding referralConsistent_def by fastforce
  from e f mastoiditis_red long_fever_referral show ?thesis by blast
qed

section \<open>The scan of the aggregator\<close>

lemma indexOf_priorityOrder: "indexOf priorityOrder c = int (colorRank c)"
  by (cases c) (simp_all add: indexOf_def priorityOrder_def)

lemma urgencyRank_inject: "urgencyRank a = urgencyRank b \<Longrightarrow> a = b"
proof -
  have r: "\<And>u. (urgencyRank u = 0) = (u = None) \<and> (urgencyRank u = 1) = (u = Some routine)
     \<and> (urgencyRank u = 2) = (u = Some urgent) \<and> (urgencyRank u = 3) = (u = Some emergency)"
    subgoal for u by (cases u rule: urgencyRank.cases) simp_all
    done
  assume "urgencyRank a = urgencyRank b"
  then show ?thesis using r[of a] r[of b] by (cases a rule: urgencyRank.cases) simp_all
qed

lemma callback_requiresReferral:
  "var_requiresReferral (callback s c) = (var_requiresReferral s \<or> requiresReferral c)"
  by (simp add: callback_def noteReferral_def notePriority_def noteUrgency_def)

lemma callback_criticalFindings:
  "var_criticalFindings (callback s c) =
     var_criticalFindings s @ (if requiresReferral c then [classification c] else [])"
  by (simp add: callback_def noteReferral_def notePriority_def noteUrgency_def)

lemma callback_highestPriority:
  "var_highestPriority (callback s c) =
     (if colorRank (var_highestPriority s) < colorRank (color c) then color c
      else var_highestPriority s)"
  by (simp add: callback_def noteReferral_def notePriority_def noteUrgency_def
      indexOf_priorityOrder)

lemma urgencyName_emergency: "(urgencyName u = ''emergency'') = (u = Some emergency)"
  by (cases u rule: urgencyRank.cases) simp_all

lemma urgencyName_none: "(urgencyName u = ''none'') = (u = None)"
  by (cases u rule: urgencyRank.cases) simp_all

lemma callback_referralUrgency:
  "var_referralUrgency s = urgencyName u \<Longrightarrow>
   var_referralUrgency (callback s c) = urgencyName (higher u (urgency c))"
  by (cases u rule: urgencyRank.cases; cases "urgency c" rule: urgencyRank.cases)
     (simp_all add: callback_def noteReferral_def notePriority_def noteUrgency_def higher_def)


lemma scan_requiresReferral:
  "var_requiresReferral (foldl callback s cs) =
     (var_requiresReferral s \<or> (\<exists>c\<in>set cs. requiresReferral c))"
  by (induction cs arbitrary: s) (auto simp: callback_requiresReferral)

lemma scan_criticalFindings:
  "var_criticalFindings (foldl callback s cs) =
     var_criticalFindings s @ map classification (filter requiresReferral cs)"
  by (induction cs arbitrary: s) (simp_all add: callback_criticalFindings)

lemma scan_highestPriority_upper:
  "colorRank (var_highestPriority s) \<le> colorRank (var_highestPriority (foldl callback s cs)) \<and>
   (\<forall>c\<in>set cs. colorRank (color c) \<le> colorRank (var_highestPriority (foldl callback s cs)))"
proof (induction cs arbitrary: s)
  case Nil
  show ?case by simp
next
  case (Cons c cs)
  have "colorRank (var_highestPriority s) \<le> colorRank (var_highestPriority (callback s c))"
    and "colorRank (color c) \<le> colorRank (var_highestPriority (callback s c))"
    by (simp_all add: callback_highestPriority)
  with Cons.IH [of "callback s c"] show ?case
    by (auto intro: order_trans)
qed

lemma scan_highestPriority_attained:
  "var_highestPriority (foldl callback s cs) = var_highestPriority s \<or>
   var_highestPriority (foldl callback s cs) \<in> color ` set cs"
proof (induction cs arbitrary: s)
  case Nil
  show ?case by simp
next
  case (Cons c cs)
  have "var_highestPriority (callback s c) = var_highestPriority s \<or>
        var_highestPriority (callback s c) = color c"
    by (simp add: callback_highestPriority)
  with Cons.IH [of "callback s c"] show ?case
    by auto
qed

lemma scan_referralUrgency:
  "var_referralUrgency s = urgencyName u \<Longrightarrow>
   var_referralUrgency (foldl callback s cs) = urgencyName (foldl higher u (map urgency cs))"
proof (induction cs arbitrary: s u)
  case Nil
  then show ?case by simp
next
  case (Cons c cs)
  from Cons.prems have "var_referralUrgency (callback s c) = urgencyName (higher u (urgency c))"
    by (rule callback_referralUrgency)
  then show ?case using Cons.IH by simp
qed

lemma colorRank_green: "(colorRank c = 0) = (c = green)"
  by (cases c) simp_all

lemma overallColor_upper:
  "c \<in> set cs \<Longrightarrow> colorRank (color c) \<le> colorRank (overallColor (calculateOverallAssessment cs))"
  using scan_highestPriority_upper [of initialVars cs]
  by (simp add: calculateOverallAssessment_def Let_def)

lemma overallColor_attained:
  "overallColor (calculateOverallAssessment cs) = green \<or>
   overallColor (calculateOverallAssessment cs) \<in> color ` set cs"
  using scan_highestPriority_attained [of initialVars cs]
  by (simp add: calculateOverallAssessment_def Let_def initialVars_def)

lemma overallRequiresReferral_iff:
  "overallRequiresReferral (calculateOverallAssessment cs) = (\<exists>c\<in>set cs. requiresReferral c)"
  by (simp add: calculateOverallAssessment_def Let_def scan_requiresReferral initialVars_def)

lemma criticalFindings_eq:
  "criticalFindings (calculateOverallAssessment cs) =
     map classification (filter requiresReferral cs)"
  by (simp add: calculateOverallAssessment_def Let_def scan_criticalFindings initialVars_def)

lemma referralUrgency_eq:
  "referralUrgency (calculateOverallAssessment cs) =
     (if \<exists>c\<in>set cs. requiresReferral c then urgencyName (highestUrgency (map urgency cs))
      else ''none'')"
  using scan_referralUrgency [of initialVars None cs]
  by (simp add: calculateOverallAssessment_def Let_def scan_requiresReferral initialVars_def
      highestUrgency_def)

lemma colorRank_red: "(3 \<le> colorRank c) = (c = red)"
  by (cases c) simp_all

lemma redAndGreenResults_fields:
  "map color redAndGreenResults = [red, green]"
  "map requiresReferral redAndGreenResults = [True, False]"
  "map classification redAndGreenResults =
     [''General Danger Signs Present'', ''No Pneumonia: Cough or Cold'']"
  by (simp_all add: redAndGreenResults_def assessDangerSigns_def noDangerSignsInput_def
      assessCoughBreathing_def coughColdInput_def or_default_def)

section \<open>Overall color, referral flag and critical findings\<close>

text \<open>
  Claim C3: for every list of results, also the empty one, the overall color is the
  maximum color of the list in the order \<open>green < yellow < pink < red\<close> (green for the
  empty list), the overall referral flag is true exactly when some result requires
  referral, and the critical findings are the labels of the results that require
  referral, in the order of the list.
\<close>

theorem overall_color_referral_findings:
  "(cs = [] \<longrightarrow> overallColor (calculateOverallAssessment cs) = green) \<and>
   (cs \<noteq> [] \<longrightarrow> overallColor (calculateOverallAssessment cs) \<in> color ` set cs) \<and>
   (\<forall>c\<in>set cs. colorRank (color c) \<le> colorRank (overallColor (calculateOverallAssessment cs))) \<and>
   overallRequiresReferral (calculateOverallAssessment cs) = (\<exists>c\<in>set cs. requiresReferral c) \<and>
   criticalFindings (calculateOverallAssessment cs) =
     map classification (filter requiresReferral cs)"
proof (intro conjI impI ballI)
  assume "cs = []"
  then show "overallColor (calculateOverallAssessment cs) = green"
    using overallColor_attained [of cs] by simp
next
  assume ne: "cs \<noteq> []"
  show "overallColor (calculateOverallAssessment cs) \<in> color ` set cs"
  proof (cases "overallColor (calculateOverallAssessment cs) = green")
    case True
    from ne obtain c where c: "c \<in> set cs" by (cases cs) auto
    with True overallColor_upper [of c cs] have "color c = green"
      by (simp add: colorRank_green)
    with c True show ?thesis by force
  next
    case False
    with overallColor_attained [of cs] show ?thesis by simp
  qed
next
  fix c assume "c \<in> set cs"
  then show "colorRank (color c) \<le> colorRank (overallColor (calculateOverallAssessment cs))"
    by (rule overallColor_upper)
next
  show "overallRequiresReferral (calculateOverallAssessment cs) = (\<exists>c\<in>set cs. requiresReferral c)"
    by (rule overallRequiresReferral_iff)
next
  show "criticalFindings (calculateOverallAssessment cs) =
     map classification (filter requiresReferral cs)"
    by (rule criticalFindings_eq)
qed


text \<open>The theorem at a red and a green result, and at the empty list.\<close>

theorem overall_color_referral_findings_witness:
  "overallColor (calculateOverallAssessment redAndGreenResults) = red \<and>
   overallRequiresReferral (calculateOverallAssessment redAndGreenResults) \<and>
   criticalFindings (calculateOverallAssessment redAndGreenResults) =
     [''General Danger Signs Present''] \<and>
   overallColor (calculateOverallAssessment []) = green \<and>
   overallRequiresReferral (calculateOverallAssessment []) = False \<and>
   criticalFindings (calculateOverallAssessment []) = []"
proof -
  obtain r g where rg: "redAndGreenResults = [r, g]"
    by (simp add: redAndGreenResults_def)
  from redAndGreenResults_fields have f: "color r = red" "requiresReferral r"
    "\<not> requiresReferral g" "classification r = ''General Danger Signs Present''"
    unfolding rg by simp_all
  from overall_color_referral_findings [of redAndGreenResults]
  have "overallColor (calculateOverallAssessment redAndGreenResults) = red"
    and "overallRequiresReferral (calculateOverallAssessment redAndGreenResults)"
    and "criticalFindings (calculateOverallAssessment redAndGreenResults) =
       [''General Danger Signs Present'']"
    unfolding rg using f by (simp_all add: colorRank_red [symmetric])
  moreover from overall_color_referral_findings [of "[]"]
  have "overallColor (calculateOverallAssessment []) = green"
    and "overallRequiresReferral (calculateOverallAssessment []) = False"
    and "criticalFindings (calculateOverallAssessment []) = []"
    by simp_all
  ultimately show ?thesis by simp
qed

section \<open>The overall label\<close>

lemma overallClassification_eq:
  "overallClassification (calculateOverallAssessment cs) =
    (let res = calculateOverallAssessment cs in
     if colorRank red \<le> colorRank (overallColor res) then ''REFER URGENTLY - Severe Classification''
     else if colorRank yellow \<le> colorRank (overallColor res) \<and> overallRequiresReferral res then
       ''REFER - Treatment Required at Higher Facility''
     else if colorRank yellow \<le> colorRank (overallColor res) then
       ''Treatment at PHU - Follow up required''
     else ''Child can be treated at home'')"
  by (simp add: calculateOverallAssessment_def Let_def indexOf_priorityOrder)

lemma overallColor_at_least:
  "(colorRank k \<le> colorRank (overallColor (calculateOverallAssessment cs))) =
     (k = green \<or> (\<exists>c\<in>set cs. colorRank k \<le> colorRank (color c)))"
proof (cases "k = green")
  case True
  then show ?thesis by simp
next
  case False
  show ?thesis
  proof
    assume le: "colorRank k \<le> colorRank (overallColor (calculateOverallAssessment cs))"
    with False have "overallColor (calculateOverallAssessment cs) \<noteq> green"
      by (auto simp: colorRank_green)
    with overallColor_attained [of cs]
    obtain c where c: "c \<in> set cs" "overallColor (calculateOverallAssessment cs) = color c"
      by auto
    from le have "colorRank k \<le> colorRank (color c)"
      unfolding c(2) .
    with c(1) show "k = green \<or> (\<exists>c\<in>set cs. colorRank k \<le> colorRank (color c))"
      by blast
  next
    assume "k = green \<or> (\<exists>c\<in>set cs. colorRank k \<le> colorRank (color c))"
    with False obtain c where "c \<in> set cs" "colorRank k \<le> colorRank (color c)"
      by auto
    with overallColor_upper [of c cs]
    show "colorRank k \<le> colorRank (overallColor (calculateOverallAssessment cs))"
      by simp
  qed
qed

text \<open>
  Claim C5: the overall label follows the tiers of the maximum color and the referral
  flag. Some result at least red gives \<open>REFER URGENTLY - Severe Classification\<close>;
  otherwise some result at least yellow together with some result requiring referral
  gives \<open>REFER - Treatment Required at Higher Facility\<close>; otherwise some result at least
  yellow gives \<open>Treatment at PHU - Follow up required\<close>; otherwise the label is
  \<open>Child can be treated at home\<close>.
\<close>

theorem overall_label_tiers:
  "overallClassification (calculateOverallAssessment cs) =
    (if \<exists>c\<in>set cs. colorRank red \<le> colorRank (color c) then
       ''REFER URGENTLY - Severe Classification''
     else if (\<exists>c\<in>set cs. colorRank yellow \<le> colorRank (color c)) \<and>
             (\<exists>c\<in>set cs. requiresReferral c) then
       ''REFER - Treatment Required at Higher Facility''
     else if \<exists>c\<in>set cs. colorRank yellow \<le> colorRank (color c) then
       ''Treatment at PHU - Follow up required''
     else ''Child can be treated at home'')"
proof -
  have r: "(colorRank red \<le> colorRank (overallColor (calculateOverallAssessment cs))) =
      (\<exists>c\<in>set cs. colorRank red \<le> colorRank (color c))"
    using overallColor_at_least [of red cs] by simp
  have y: "(colorRank yellow \<le> colorRank (overallColor (calculateOverallAssessment cs))) =
      (\<exists>c\<in>set cs. colorRank yellow \<le> colorRank (color c))"
    using overallColor_at_least [of yellow cs] by simp
  show ?thesis
    unfolding overallClassification_eq [of cs] Let_def r y overallRequiresReferral_iff ..
qed

text \<open>The theorem at a red and a green result, and at the empty list.\<close>

theorem overall_label_tiers_witness:
  "overallClassification (calculateOverallAssessment redAndGreenResults) =
     ''REFER URGENTLY - Severe Classification'' \<and>
   overallClassification (calculateOverallAssessment []) = ''Child can be treated at home''"
proof -
  obtain r g where rg: "redAndGreenResults = [r, g]"
    by (simp add: redAndGreenResults_def)
  from redAndGreenResults_fields(1) have f: "color r = red"
    unfolding rg by simp
  from overall_label_tiers [of redAndGreenResults]
  have "overallClassification (calculateOverallAssessment redAndGreenResults) =
     ''REFER URGENTLY - Severe Classification''"
    unfolding rg using f by simp
  moreover from overall_label_tiers [of "[]"]
  have "overallClassification (calculateOverallAssessment []) = ''Child can be treated at home''"
    by simp
  ultimately show ?thesis by simp
qed

section \<open>The referral urgency\<close>

lemma higher_rank: "urgencyRank (higher a b) = max (urgencyRank a) (urgencyRank b)"
  by (simp add: higher_def)

lemma foldl_higher_upper:
  "urgencyRank a \<le> urgencyRank (foldl higher a us) \<and>
   (\<forall>u\<in>set us. urgencyRank u \<le> urgencyRank (foldl higher a us))"
proof (induction us arbitrary: a)
  case Nil
  show ?case by simp
next
  case (Cons u us)
  have "urgencyRank a \<le> urgencyRank (higher a u)" "urgencyRank u \<le> urgencyRank (higher a u)"
    by (simp_all add: higher_rank)
  with Cons.IH [of "higher a u"] show ?case
    by (auto intro: order_trans)
qed

lemma foldl_higher_attained: "foldl higher a us = a \<or> foldl higher a us \<in> set us"
proof (induction us arbitrary: a)
  case Nil
  show ?case by simp
next
  case (Cons u us)
  have "higher a u = a \<or> higher a u = u"
    by (simp add: higher_def)
  with Cons.IH [of "higher a u"] show ?case
    by auto
qed

text \<open>\<open>highestUrgency\<close> is the maximum of the list in the order of the urgencies.\<close>

lemma highestUrgency_is_maximum:
  "(\<forall>u\<in>set us. urgencyRank u \<le> urgencyRank (highestUrgency us)) \<and>
   (highestUrgency us = None \<or> highestUrgency us \<in> set us)"
  using foldl_higher_upper [of None us] foldl_higher_attained [of None us]
  by (simp add: highestUrgency_def)

lemma higher_absorb: "urgencyRank b \<le> urgencyRank a \<Longrightarrow> higher a b = a"
  by (simp add: higher_def)

lemma foldl_higher_filter:
  "\<forall>c\<in>set cs. urgencyFollowsReferral c \<Longrightarrow> 1 \<le> urgencyRank a \<Longrightarrow>
   foldl higher a (map urgency cs) = foldl higher a (map urgency (filter requiresReferral cs))"
proof (induction cs arbitrary: a)
  case Nil
  show ?case by simp
next
  case (Cons c cs)
  show ?case
  proof (cases "requiresReferral c")
    case True
    have "1 \<le> urgencyRank (higher a (urgency c))"
      using Cons.prems(2) by (simp add: higher_rank)
    with Cons.IH [of "higher a (urgency c)"] Cons.prems(1) True show ?thesis
      by simp
  next
    case False
    with Cons.prems(1) have "urgency c = None \<or> urgency c = Some routine"
      by (simp add: urgencyFollowsReferral_def)
    with Cons.prems(2) have "higher a (urgency c) = a"
      by (auto intro: higher_absorb)
    with Cons.IH [of a] Cons.prems False show ?thesis
      by simp
  qed
qed

lemma foldl_higher_filter_low:
  "\<forall>c\<in>set cs. urgencyFollowsReferral c \<Longrightarrow> urgencyRank a \<le> 1 \<Longrightarrow>
   \<exists>c\<in>set cs. requiresReferral c \<Longrightarrow>
   foldl higher a (map urgency cs) = foldl higher None (map urgency (filter requiresReferral cs))"
proof (induction cs arbitrary: a)
  case Nil
  then show ?case by simp
next
  case (Cons c cs)
  show ?case
  proof (cases "requiresReferral c")
    case True
    with Cons.prems(1) have u: "1 \<le> urgencyRank (urgency c)"
      by (cases "urgency c" rule: urgencyRank.cases) (simp_all add: urgencyFollowsReferral_def)
    have n: "higher None (urgency c) = urgency c"
      using u by (simp add: higher_def)
    have "urgencyRank (higher a (urgency c)) = urgencyRank (urgency c)"
      using u Cons.prems(2) by (simp add: higher_rank)
    then have h: "higher a (urgency c) = urgency c"
      by (rule urgencyRank_inject)
    from Cons.prems(1) u
    have "foldl higher (urgency c) (map urgency cs) =
       foldl higher (urgency c) (map urgency (filter requiresReferral cs))"
      by (intro foldl_higher_filter) simp_all
    with True n h show ?thesis by simp
  next
    case False
    with Cons.prems(1) have "urgency c = None \<or> urgency c = Some routine"
      by (simp add: urgencyFollowsReferral_def)
    then have "urgencyRank (higher a (urgency c)) \<le> 1"
      using Cons.prems(2) by (auto simp: higher_rank)
    with Cons.IH [of "higher a (urgency c)"] Cons.prems False show ?thesis
      by simp
  qed
qed

text \<open>Every result of a classifier relates urgency and referral as \<open>urgencyFollowsReferral\<close> says.\<close>

lemma classifier_results_urgencyFollowsReferral:
  "urgencyFollowsReferral (assessDangerSigns a)"
  "urgencyFollowsReferral (assessCoughBreathing b)"
  "urgencyFollowsReferral (assessDiarrhea c)"
  "urgencyFollowsReferral (assessFever f)"
  "urgencyFollowsReferral (assessEarProblem e)"
  "urgencyFollowsReferral (assessNutrition n)"
  by (simp_all add: urgencyFollowsReferral_def assessDangerSigns_def assessCoughBreathing_def
      assessDiarrhea_def assessFever_def assessEarProblem_def assessNutrition_def Let_def)

text \<open>
  Claim C2, as stated: for every list of results the reported urgency is the highest
  urgency among the results that require referral. The scan takes the urgency of every
  result, whether it requires referral or not, and the referral flag only decides between
  that maximum and \<open>none\<close>. On a list holding a routine referral and a result that
  requires no referral but carries \<open>emergency\<close>, the aggregator reports \<open>emergency\<close>,
  while the only urgency among the referral-requiring results is \<open>routine\<close>.
\<close>

theorem highest_urgency_counterexample:
  "map urgency (filter requiresReferral mixedUrgencyResults) = [Some routine] \<and>
   urgencyName (highestUrgency (map urgency (filter requiresReferral mixedUrgencyResults))) =
     ''routine'' \<and>
   referralUrgency (calculateOverallAssessment mixedUrgencyResults) = ''emergency''"
  by (simp add: mixedUrgencyResults_def calculateOverallAssessment_def Let_def callback_def
      noteReferral_def notePriority_def noteUrgency_def initialVars_def highestUrgency_def
      higher_def)

lemma referralUrgency_among_referrals:
  assumes a: "\<forall>c\<in>set cs. urgencyFollowsReferral c"
  shows "referralUrgency (calculateOverallAssessment cs) =
        urgencyName (highestUrgency (map urgency (filter requiresReferral cs)))"
proof (cases "\<exists>c\<in>set cs. requiresReferral c")
  case True
  with a have "highestUrgency (map urgency cs) =
      highestUrgency (map urgency (filter requiresReferral cs))"
    unfolding highestUrgency_def by (intro foldl_higher_filter_low) simp_all
  with True show ?thesis by (simp add: referralUrgency_eq)
next
  case False
  then have "filter requiresReferral cs = []"
    by (simp add: filter_empty_conv)
  with False show ?thesis by (simp add: referralUrgency_eq highestUrgency_def)
qed

text \<open>
  Claim C2, amended: the reported urgency is \<open>none\<close> when no result requires referral,
  and otherwise the highest urgency among all results of the list. It is the highest
  urgency among the referral-requiring results for every list in which each result that
  requires referral carries an urgency and each other result carries none or \<open>routine\<close>;
  every list of results of the six classifiers is such a list.
\<close>

theorem referral_urgency_highest:
  "referralUrgency (calculateOverallAssessment cs) =
     (if \<exists>c\<in>set cs. requiresReferral c then urgencyName (highestUrgency (map urgency cs))
      else ''none'') \<and>
   ((\<forall>c\<in>set cs. urgencyFollowsReferral c) \<longrightarrow>
      referralUrgency (calculateOverallAssessment cs) =
        urgencyName (highestUrgency (map urgency (filter requiresReferral cs)))) \<and>
   urgencyFollowsReferral (assessDangerSigns a) \<and>
   urgencyFollowsReferral (assessCoughBreathing b) \<and>
   urgencyFollowsReferral (assessDiarrhea c) \<and>
   urgencyFollowsReferral (assessFever f) \<and>
   urgencyFollowsReferral (assessEarProblem e) \<and>
   urgencyFollowsReferral (assessNutrition n)"
proof -
  have "referralUrgency (calculateOverallAssessment cs) =
     (if \<exists>c\<in>set cs. requiresReferral c then urgencyName (highestUrgency (map urgency cs))
      else ''none'')"
    by (rule referralUrgency_eq)
  moreover have "(\<forall>c\<in>set cs. urgencyFollowsReferral c) \<longrightarrow>
      referralUrgency (calculateOverallAssessment cs) =
        urgencyName (highestUrgency (map urgency (filter requiresReferral cs)))"
    using referralUrgency_among_referrals [of cs] by blast
  ultimately show ?thesis
    by (simp only: classifier_results_urgencyFollowsReferral simp_thms)
qed

lemma referralResults_fields:
  "map requiresReferral referralResults = [True, False, True]"
  "map urgency referralResults = [Some routine, Some routine, Some urgent]"
  by (simp_all add: referralResults_def assessDiarrhea_def plainDiarrheaInput_def
      assessFever_def plainFeverInput_def assessEarProblem_def plainEarInput_def or_default_def)

text \<open>The theorem at three results of the classifiers, and at a fever result alone.\<close>

theorem referral_urgency_highest_witness:
  "referralUrgency (calculateOverallAssessment referralResults) = ''urgent'' \<and>
   referralUrgency (calculateOverallAssessment [assessFever plainFeverInput]) = ''none''"
proof -
  have a: "\<forall>c\<in>set referralResults. urgencyFollowsReferral c"
    by (simp add: referralResults_def classifier_results_urgencyFollowsReferral)
  obtain x y z where xyz: "referralResults = [x, y, z]"
    by (simp add: referralResults_def)
  from referralResults_fields
  have f: "requiresReferral x" "\<not> requiresReferral y" "requiresReferral z"
    "urgency x = Some routine" "urgency z = Some urgent"
    unfolding xyz by simp_all
  from referral_urgency_highest [of referralResults] a
  have "referralUrgency (calculateOverallAssessment referralResults) =
      urgencyName (highestUrgency (map urgency (filter requiresReferral referralResults)))"
    by blast
  then have 1: "referralUrgency (calculateOverallAssessment referralResults) = ''urgent''"
    unfolding xyz using f by (simp add: highestUrgency_def higher_def)
  have "\<not> requiresReferral (assessFever plainFeverInput)"
    by (simp add: assessFever_def plainFeverInput_def or_default_def)
  with referral_urgency_highest [of "[assessFever plainFeverInput]"]
  have 2: "referralUrgency (calculateOverallAssessment [assessFever plainFeverInput]) = ''none''"
    by simp
  from 1 2 show ?thesis by simp
qed

section \<open>A referral that is labelled as home care\<close>

lemma fever_fallback:
  assumes "hasFever f" and "malariaRdtResult f \<noteq> Some ''positive''"
    and "\<not> fever_hasDangerSigns f" and "\<not> stiffNeck f"
    and "\<not> (generalizedRash f \<and> runnyNose f)"
  shows "color (assessFever f) = green"
    and "urgency (assessFever f) = Some routine"
    and "requiresReferral (assessFever f) =
      (\<exists>n. feverDurationDays f = Some n \<and> js_ge n (Num 7))"
  using assms by (auto simp: assessFever_def or_default_ge)

text \<open>
  Claim C9: for a fever that is present with a malaria test not positive, no danger sign,
  no stiff neck, no measles pattern and a duration of at least seven days, the fever
  classifier returns green with referral required; when the five other results are green
  without referral, the aggregator over the six results returns referral required with
  urgency \<open>routine\<close> and the label \<open>Child can be treated at home\<close>.
\<close>

theorem week_long_fever_referred_yet_home:
  assumes fever: "hasFever f" "malariaRdtResult f \<noteq> Some ''positive''"
    "\<not> fever_hasDangerSigns f" "\<not> stiffNeck f" "\<not> (generalizedRash f \<and> runnyNose f)"
    "\<exists>n. feverDurationDays f = Some n \<and> js_ge n (Num 7)"
    and others: "\<forall>r\<in>set [assessDangerSigns a, assessCoughBreathing b, assessDiarrhea c,
        assessEarProblem e, assessNutrition n]. color r = green \<and> \<not> requiresReferral r"
  shows "color (assessFever f) = green \<and> requiresReferral (assessFever f) \<and>
    (let overall = calculateOverallAssessment
        [assessDangerSigns a, assessCoughBreathing b, assessDiarrhea c, assessFever f,
         assessEarProblem e, assessNutrition n]
     in overallRequiresReferral overall \<and> referralUrgency overall = ''routine'' \<and>
        overallClassification overall = ''Child can be treated at home'')"
proof -
  let ?cs = "[assessDangerSigns a, assessCoughBreathing b, assessDiarrhea c, assessFever f,
         assessEarProblem e, assessNutrition n]"
  from fever have g: "color (assessFever f) = green" and r: "requiresReferral (assessFever f)"
    and u: "urgency (assessFever f) = Some routine"
    by (simp_all add: fever_fallback)
  have "\<forall>c\<in>set ?cs. urgencyFollowsReferral c"
    by (simp add: classifier_results_urgencyFollowsReferral)
  then have "referralUrgency (calculateOverallAssessment ?cs) =
      urgencyName (highestUrgency (map urgency (filter requiresReferral ?cs)))"
    by (rule referralUrgency_among_referrals)
  with others r u have 1: "referralUrgency (calculateOverallAssessment ?cs) = ''routine''"
    by (simp add: highestUrgency_def higher_def)
  from r have 2: "overallRequiresReferral (calculateOverallAssessment ?cs)"
    by (simp add: overallRequiresReferral_iff)
  from others g have "\<forall>c\<in>set ?cs. color c = green"
    by simp
  then have "overallColor (calculateOverallAssessment ?cs) = green"
    using overallColor_attained [of ?cs] by auto
  then have 3: "overallClassification (calculateOverallAssessment ?cs) =
      ''Child can be treated at home''"
    by (simp add: overallClassification_eq [of ?cs] Let_def)
  from g r 1 2 3 show ?thesis by (simp add: Let_def)
qed

text \<open>Such an assessment exists: the theorem at a fever of exactly seven days.\<close>

theorem week_long_fever_referred_yet_home_witness:
  "color (assessFever (plainFeverInput\<lparr>feverDurationDays := Some (Num 7)\<rparr>)) = green \<and>
   requiresReferral (assessFever (plainFeverInput\<lparr>feverDurationDays := Some (Num 7)\<rparr>)) \<and>
   overallRequiresReferral (calculateOverallAssessment weekLongFeverResults) \<and>
   referralUrgency (calculateOverallAssessment weekLongFeverResults) = ''routine'' \<and>
   overallClassification (calculateOverallAssessment weekLongFeverResults) =
     ''Child can be treated at home''"
proof -
  have others: "\<forall>r\<in>set [assessDangerSigns noDangerSignsInput,
        assessCoughBreathing coughColdInput, assessDiarrhea plainDiarrheaInput,
        assessEarProblem plainEarInput,
        assessNutrition (zeroMuacInput\<lparr>muacMeasurement := Some (Num 13)\<rparr>)].
      color r = green \<and> \<not> requiresReferral r"
    by (simp add: assessDangerSigns_def noDangerSignsInput_def assessCoughBreathing_def
        coughColdInput_def assessDiarrhea_def plainDiarrheaInput_def assessEarProblem_def
        plainEarInput_def assessNutrition_def zeroMuacInput_def or_default_def and_then_def)
  have fever: "hasFever (plainFeverInput\<lparr>feverDurationDays := Some (Num 7)\<rparr>)"
    "malariaRdtResult (plainFeverInput\<lparr>feverDurationDays := Some (Num 7)\<rparr>) \<noteq> Some ''positive''"
    "\<not> fever_hasDangerSigns (plainFeverInput\<lparr>feverDurationDays := Some (Num 7)\<rparr>)"
    "\<not> stiffNeck (plainFeverInput\<lparr>feverDurationDays := Some (Num 7)\<rparr>)"
    "\<not> (generalizedRash (plainFeverInput\<lparr>feverDurationDays := Some (Num 7)\<rparr>) \<and>
        runnyNose (plainFeverInput\<lparr>feverDurationDays := Some (Num 7)\<rparr>))"
    "\<exists>n. feverDurationDays (plainFeverInput\<lparr>feverDurationDays := Some (Num 7)\<rparr>) = Some n \<and>
        js_ge n (Num 7)"
    by (simp_all add: plainFeverInput_def)
  from week_long_fever_referred_yet_home [OF fever others]
  show ?thesis by (simp add: weekLongFeverResults_def Let_def)
qed

end
